theory Spec2Isabelle
  imports Main "HOL-Library.Sublist"
begin

section \<open>The JavaScript runtime the watermarking module relies on\<close>

text \<open>
  Strings are byte lists (the UTF-8 encoding of the JavaScript string, which is what
  \<open>Buffer.from\<close> produces). A thrown value is a \<open>js_error\<close>; a computation that may
  throw returns \<open>js_error + 'a\<close>. Console output is collected as a list of lines.
\<close>

datatype js_error = TypeError string | Thrown string

fun message :: "js_error \<Rightarrow> string" where
  "message (TypeError m) = ''TypeError: '' @ m"
| "message (Thrown m) = m"

datatype console_level = Warn | Error | Debug | Log

type_synonym console_line = "console_level \<times> string"

text \<open>
  \<open>try { body } catch (error) { handler }\<close>: the handler runs exactly when the body
  throws, after whatever the body had already printed.
\<close>

definition try_catch ::
  "console_line list \<times> (js_error + 'a) \<Rightarrow> (js_error \<Rightarrow> console_line list \<times> (js_error + 'a))
     \<Rightarrow> console_line list \<times> (js_error + 'a)" where
  "try_catch body handler =
     (case body of
        (out, Inl error) \<Rightarrow> (case handler error of (out', r) \<Rightarrow> (out @ out', r))
      | (out, Inr v) \<Rightarrow> (out, Inr v))"

text \<open>Truthiness of a value that is a string or \<open>undefined\<close> (\<open>None\<close>).\<close>

definition truthy :: "string option \<Rightarrow> bool" where
  "truthy v = (case v of None \<Rightarrow> False | Some s \<Rightarrow> s \<noteq> [])"

text \<open>\<open>v || d\<close> for a string-or-undefined \<open>v\<close> and a string \<open>d\<close>.\<close>

definition or_else :: "string option \<Rightarrow> string \<Rightarrow> string" where
  "or_else v d = (case v of None \<Rightarrow> d | Some s \<Rightarrow> if s = [] then d else s)"

text \<open>\<open>s.includes(p)\<close> and \<open>s.endsWith(e)\<close> on strings.\<close>

definition includes_str :: "string \<Rightarrow> string \<Rightarrow> bool" where
  "includes_str s p = sublist p s"

definition endsWith :: "string \<Rightarrow> string \<Rightarrow> bool" where
  "endsWith s e = suffix e s"

subsection \<open>Decimal numerals\<close>

definition digit_char :: "nat \<Rightarrow> char" where
  "digit_char d = ''0123456789'' ! d"

fun show_nat :: "nat \<Rightarrow> string" where
  "show_nat n = (if n < 10 then [digit_char n] else show_nat (n div 10) @ [digit_char (n mod 10)])"

declare show_nat.simps [simp del]

text \<open>An integer inside a template literal.\<close>

definition show_int :: "int \<Rightarrow> string" where
  "show_int i = (if i < 0 then CHR ''-'' # show_nat (nat (- i)) else show_nat (nat i))"

definition is_digit :: "char \<Rightarrow> bool" where
  "is_digit c = (48 \<le> (of_char c :: nat) \<and> (of_char c :: nat) \<le> 57)"

definition digit_val :: "char \<Rightarrow> nat" where
  "digit_val c = of_char c - 48"

text \<open>The value of a digit string, most significant digit first.\<close>

definition digits_val :: "string \<Rightarrow> nat" where
  "digits_val ds = foldl (\<lambda>acc c. 10 * acc + digit_val c) 0 ds"

subsection \<open>Dates\<close>

text \<open>
  A \<open>Date\<close> is its time value: milliseconds since 1970-01-01T00:00:00Z, or \<open>None\<close> for
  the Invalid Date (time value NaN). The day arithmetic is ECMAScript's (ECMA-262,
  "Day Number and Time within Day", "Year Number", \<open>MakeDay\<close>); months count from 0.
\<close>

type_synonym time_value = "int option"

definition msPerDay :: int where
  "msPerDay = 86400000"

definition DayFromYear :: "int \<Rightarrow> int" where
  "DayFromYear y = 365 * (y - 1970) + (y - 1969) div 4 - (y - 1901) div 100 + (y - 1601) div 400"

definition InLeapYear :: "int \<Rightarrow> bool" where
  "InLeapYear y = (y mod 4 = 0 \<and> (y mod 100 \<noteq> 0 \<or> y mod 400 = 0))"

definition DaysInMonth :: "int \<Rightarrow> nat \<Rightarrow> int" where
  "DaysInMonth y m =
     (if m = 1 then (if InLeapYear y then 29 else 28)
      else if m \<in> {3, 5, 8, 10} then 30 else 31)"

definition MonthStart :: "int \<Rightarrow> nat \<Rightarrow> int" where
  "MonthStart y m = (\<Sum>k \<leftarrow> [0..<m]. DaysInMonth y k)"

definition MakeDay :: "int \<Rightarrow> nat \<Rightarrow> int \<Rightarrow> int" where
  "MakeDay y m d = DayFromYear y + MonthStart y m + d - 1"

text \<open>
  \<open>Date.parse\<close> on the date-only form \<open>YYYY-MM-DD\<close> of the Date Time String Format,
  which is read as UTC midnight of that day; an element out of range gives NaN. This is
  the one format the module feeds it. Other formats are outside this model and are
  reported as NaN here.
\<close>

definition Date_parse :: "string \<Rightarrow> time_value" where
  "Date_parse s =
     (if length s = 10 \<and> s ! 4 = CHR ''-'' \<and> s ! 7 = CHR ''-''
         \<and> list_all is_digit (take 4 s) \<and> list_all is_digit (take 2 (drop 5 s))
         \<and> list_all is_digit (drop 8 s)
      then
        (let y = int (digits_val (take 4 s));
             m = digits_val (take 2 (drop 5 s));
             d = int (digits_val (drop 8 s))
         in if 1 \<le> m \<and> m \<le> 12 \<and> 1 \<le> d \<and> d \<le> DaysInMonth y (m - 1)
            then Some (MakeDay y (m - 1) d * msPerDay) else None)
      else None)"

text \<open>\<open>new Date(v)\<close> for \<open>v\<close> a string or \<open>undefined\<close>.\<close>

definition Date_new :: "string option \<Rightarrow> time_value" where
  "Date_new v = (case v of None \<Rightarrow> None | Some s \<Rightarrow> Date_parse s)"

text \<open>\<open>a < b\<close> on two dates: a comparison of time values, false when either is NaN.\<close>

fun date_lt :: "time_value \<Rightarrow> time_value \<Rightarrow> bool" where
  "date_lt (Some a) (Some b) = (a < b)"
| "date_lt _ _ = False"

subsection \<open>Base64\<close>

text \<open>\<open>Buffer.from(s).toString('base64')\<close>: RFC 4648 with padding, over the bytes of \<open>s\<close>.\<close>

definition b64_alphabet :: string where
  "b64_alphabet = ''ABCDEFGHIJKLMNOPQRSTUVWXYZabcdefghijklmnopqrstuvwxyz0123456789+/''"

definition b64_char :: "nat \<Rightarrow> char" where
  "b64_char n = b64_alphabet ! (n mod 64)"

fun base64 :: "string \<Rightarrow> string" where
  "base64 [] = []"
| "base64 [a] =
     (let x = (of_char a :: nat)
      in [b64_char (x div 4), b64_char ((x mod 4) * 16), CHR ''='', CHR ''=''])"
| "base64 [a, b] =
     (let x = (of_char a :: nat); y = (of_char b :: nat)
      in [b64_char (x div 4), b64_char ((x mod 4) * 16 + y div 16),
          b64_char ((y mod 16) * 4), CHR ''=''])"
| "base64 (a # b # c # rest) =
     (let x = (of_char a :: nat); y = (of_char b :: nat); z = (of_char c :: nat)
      in [b64_char (x div 4), b64_char ((x mod 4) * 16 + y div 16),
          b64_char ((y mod 16) * 4 + z div 64), b64_char (z mod 64)] @ base64 rest)"

section \<open>\<open>watermarking.js\<close>: the licensing module\<close>

text \<open>
  What the module takes from its platform: successive readings of the system clock
  (\<open>new Date()\<close>, \<open>Date.now()\<close>), the two \<open>Date\<close> formatters it calls, and the
  hex digest of \<open>crypto.createHmac('sha256', key).update(data)\<close>.
\<close>

record platform =
  clock :: "nat \<Rightarrow> int"
  toISOString :: "int \<Rightarrow> string"
  getFullYear :: "int \<Rightarrow> int"
  hmac_sha256_hex :: "string \<Rightarrow> string \<Rightarrow> string"

text \<open>\<open>generateSourceWatermark(key, instanceId)\<close>, with the two clock readings it makes.\<close>

definition generateSourceWatermark :: "platform \<Rightarrow> int \<Rightarrow> int \<Rightarrow> string \<Rightarrow> string \<Rightarrow> string" where
  "generateSourceWatermark pf t1 t2 key instanceId =
     (let timestamp = toISOString pf t1;
          data = instanceId @ ''-'' @ timestamp;
          hash = take 16 (hmac_sha256_hex pf key data)
      in ''DGWM-'' @ hash @ ''-'' @ show_int (getFullYear pf t2))"

text \<open>\<open>generateBuildWatermark(licenseHolder, version)\<close>, with the reading of \<open>Date.now()\<close>.\<close>

definition generateBuildWatermark :: "int \<Rightarrow> string \<Rightarrow> string \<Rightarrow> string" where
  "generateBuildWatermark buildId licenseHolder version =
     ''/* DevOps-guardians v'' @ version @ '' - Licensed to: '' @ licenseHolder
       @ '' - Build: '' @ show_int buildId @ '' */''"

text \<open>
  A decoded license: an object whose fields, where present, have the types the
  placeholder gives them. \<open>None\<close> is a field that is missing (\<open>undefined\<close>).
\<close>

record license =
  expiresAt :: "string option"
  allowedInstances :: "string list option"
  features :: "string list option"
  customer :: "string option"

text \<open>
  A decoder returns an object, returns \<open>undefined\<close>/\<open>null\<close> (\<open>Inr None\<close>) or throws.
  \<open>decodeLicenseKey\<close> is the module's placeholder: it ignores the key.
\<close>

type_synonym decoder = "string \<Rightarrow> js_error + license option"

definition decodeLicenseKey :: decoder where
  "decodeLicenseKey licenseKey =
     Inr (Some \<lparr>expiresAt = Some ''2026-12-31'',
                allowedInstances = Some [''default-instance'', ''production-1'', ''staging-1''],
                features = Some [''all''],
                customer = Some ''Example Customer''\<rparr>)"

text \<open>
  The body of the \<open>try\<close> block of \<open>verifyLicense\<close>, for a decoder \<open>decode\<close> and the
  reading \<open>now\<close> of the clock. Reading a property of \<open>undefined\<close> throws a TypeError.
\<close>

definition verifyLicense_try ::
  "decoder \<Rightarrow> int \<Rightarrow> string \<Rightarrow> string \<Rightarrow> console_line list \<times> (js_error + bool)" where
  "verifyLicense_try decode now licenseKey instanceId =
     (case decode licenseKey of
        Inl e \<Rightarrow> ([], Inl e)
      | Inr None \<Rightarrow> ([], Inl (TypeError ''Cannot read properties of undefined (reading expiresAt)''))
      | Inr (Some decodedLicense) \<Rightarrow>
          if date_lt (Date_new (expiresAt decodedLicense)) (Some now)
          then ([(Warn, ''License has expired'')], Inr False)
          else
            (case allowedInstances decodedLicense of
               None \<Rightarrow> ([], Inl (TypeError ''Cannot read properties of undefined (reading includes)''))
             | Some instances \<Rightarrow>
                 if instanceId \<notin> set instances
                 then ([(Warn, ''Instance ID not authorized for this license'')], Inr False)
                 else ([], Inr True)))"

definition verifyLicense_with ::
  "decoder \<Rightarrow> int \<Rightarrow> string \<Rightarrow> string \<Rightarrow> console_line list \<times> (js_error + bool)" where
  "verifyLicense_with decode now licenseKey instanceId =
     try_catch (verifyLicense_try decode now licenseKey instanceId)
       (\<lambda>error. ([(Error, ''Error verifying license: '' @ message error)], Inr False))"

text \<open>\<open>verifyLicense(licenseKey, instanceId)\<close> as the module defines it.\<close>

definition verifyLicense :: "int \<Rightarrow> string \<Rightarrow> string \<Rightarrow> console_line list \<times> (js_error + bool)" where
  "verifyLicense now licenseKey instanceId =
     verifyLicense_with decodeLicenseKey now licenseKey instanceId"

definition checkCodeIntegrity :: bool where
  "checkCodeIntegrity = True"

text \<open>
  \<open>initializeWatermarking()\<close> over the environment \<open>env\<close>: what it prints, or the error it
  throws. The clock is read once by \<open>verifyLicense\<close> (when there is a license key) and
  twice by \<open>generateSourceWatermark\<close>.
\<close>

definition initializeWatermarking ::
  "platform \<Rightarrow> (string \<rightharpoonup> string) \<Rightarrow> console_line list \<times> (js_error + unit)" where
  "initializeWatermarking pf env =
     (let licenseKey = env ''LICENSE_KEY'';
          instanceId = or_else (env ''INSTANCE_ID'') ''default-instance'';
          unregistered = ([(Warn, ''Application running in unregistered mode'')], Inr (), 0);
          (out1, r1, n) =
            (case licenseKey of
               None \<Rightarrow> unregistered
             | Some k \<Rightarrow>
                 if k = [] then unregistered
                 else
                   (case verifyLicense (clock pf 0) k instanceId of
                      (out, Inl e) \<Rightarrow> (out, Inl e, 1)
                    | (out, Inr isValid) \<Rightarrow>
                        (out @ (if \<not> isValid then [(Error, ''Invalid license detected'')] else []),
                         Inr (), 1)))
      in case r1 of
           Inl e \<Rightarrow> (out1, Inl e)
         | Inr _ \<Rightarrow>
             (let codeIntegrity = checkCodeIntegrity;
                  out2 = (if \<not> codeIntegrity
                          then [(Error, ''Code integrity violation detected'')] else []);
                  watermark = generateSourceWatermark pf (clock pf n) (clock pf (n + 1))
                                (or_else (env ''WATERMARK_KEY'') ''default-key'') instanceId
              in (out1 @ out2 @ [(Debug, ''Application initialized '' @ base64 watermark)],
                  Inr ())))"

section \<open>The Vite watermark plugin\<close>

text \<open>
  The options object of \<open>watermarkPlugin(options = {})\<close>: a property that is absent
  (\<open>None\<close>) takes its default in the destructuring.
\<close>

record plugin_options =
  opt_licenseHolder :: "string option"
  opt_version :: "string option"
  opt_exclude :: "string list option"
  opt_include :: "string list option"
  opt_customText :: "string option"
  opt_encodeWatermark :: "bool option"

definition no_options :: plugin_options where
  "no_options = \<lparr>opt_licenseHolder = None, opt_version = None, opt_exclude = None,
                  opt_include = None, opt_customText = None, opt_encodeWatermark = None\<rparr>"

text \<open>
  What the plugin's hooks close over: the destructured options (\<open>exclude\<close> and
  \<open>include\<close> are the fields \<open>exclude_list\<close> and \<open>include_list\<close>) and the build id.
\<close>

record plugin =
  licenseHolder :: string
  version :: string
  exclude_list :: "string list"
  include_list :: "string list"
  customText :: string
  encodeWatermark :: bool
  buildId :: int

definition watermarkPlugin :: "(string \<rightharpoonup> string) \<Rightarrow> int \<Rightarrow> plugin_options \<Rightarrow> plugin" where
  "watermarkPlugin env now options =
     \<lparr>licenseHolder = (case opt_licenseHolder options of
                          None \<Rightarrow> or_else (env ''LICENSE_HOLDER'') ''Unregistered''
                        | Some h \<Rightarrow> h),
      version = (case opt_version options of
                   None \<Rightarrow> or_else (env ''npm_package_version'') ''1.0.0''
                 | Some v \<Rightarrow> v),
      exclude_list = (case opt_exclude options of
                   None \<Rightarrow> [''node_modules'', ''.json'', ''.css'', ''.html'']
                 | Some ps \<Rightarrow> ps),
      include_list = (case opt_include options of
                   None \<Rightarrow> [''.js'', ''.jsx'', ''.ts'', ''.tsx'']
                 | Some es \<Rightarrow> es),
      customText = (case opt_customText options of None \<Rightarrow> [] | Some t \<Rightarrow> t),
      encodeWatermark = (case opt_encodeWatermark options of None \<Rightarrow> False | Some b \<Rightarrow> b),
      buildId = now\<rparr>"

text \<open>
  \<open>transform(code, id)\<close>, the parameter \<open>id\<close> written \<open>file_id\<close>; \<open>None\<close> is the
  \<open>null\<close> that leaves the file as it is.
\<close>

definition transform :: "plugin \<Rightarrow> string \<Rightarrow> string \<Rightarrow> string option" where
  "transform p code file_id =
     (if list_ex (\<lambda>pattern. includes_str file_id pattern) (exclude_list p) then None
      else if \<not> list_ex (\<lambda>ext. endsWith file_id ext) (include_list p) then None
      else
        (let watermark = ''/* DevOps-guardians v'' @ version p @ '' - Licensed to: ''
                           @ licenseHolder p @ '' - Build: '' @ show_int (buildId p);
             watermark = (if customText p \<noteq> [] then watermark @ '' - '' @ customText p
                          else watermark);
             watermark = watermark @ '' */'';
             watermark = (if encodeWatermark p then ''/* '' @ base64 watermark @ '' */''
                          else watermark)
         in Some (watermark @ [CHR 0x0A] @ code)))"

section \<open>\<open>create_enum.sql\<close>: the migration script\<close>

text \<open>
  The catalog of one database, as far as the script reads and writes it. Every named
  object lives in a schema, so a name is qualified: (schema, name). \<open>pg_type\<close> holds
  one row per type (an enum with its labels in order, or any other type); \<open>tables\<close>
  holds for each table its columns in order, which is what \<open>information_schema.columns\<close>
  shows of it (the role that runs the script is taken to see every table).
  \<open>search_path\<close> lists, in order, the schemas in which an unqualified name is looked up;
  the first is the schema new objects are created in. The schemas that are searched
  implicitly (\<open>pg_catalog\<close>, the session's temporary schema), rows of tables, and
  relations other than tables are not modelled.
\<close>

datatype pg_typdef = EnumType "string list" | OtherType

datatype sql_type = SqlInteger | SqlNamed string

record column =
  column_name :: string
  data_type :: sql_type
  not_null :: bool
  column_default :: "int option"

type_synonym qualified_name = "string \<times> string"

record catalog =
  search_path :: "string list"
  pg_type :: "(qualified_name \<times> pg_typdef) list"
  tables :: "(qualified_name \<times> column list) list"

datatype sql_error =
  InvalidSchemaName | DuplicateObject string | UndefinedTable string | DuplicateColumn string

text \<open>
  \<open>CREATE TYPE name AS ENUM (labels)\<close> with an unqualified name: the type is created in
  the first schema of the search path; it is an error when there is none, or when that
  schema has a type of the name.
\<close>

definition create_type_enum :: "string \<Rightarrow> string list \<Rightarrow> catalog \<Rightarrow> sql_error + catalog" where
  "create_type_enum name labels db =
     (case search_path db of
        [] \<Rightarrow> Inl InvalidSchemaName
      | s # _ \<Rightarrow>
          if map_of (pg_type db) (s, name) \<noteq> None then Inl (DuplicateObject name)
          else Inr (db\<lparr>pg_type := pg_type db @ [((s, name), EnumType labels)]\<rparr>))"

text \<open>An unqualified table name denotes the table of the first schema on the search path that has one.\<close>

definition resolve_table :: "catalog \<Rightarrow> string \<Rightarrow> string option" where
  "resolve_table db t = find (\<lambda>s. map_of (tables db) (s, t) \<noteq> None) (search_path db)"

text \<open>The table \<open>k\<close> with its columns replaced by \<open>cols\<close>.\<close>

fun replace_columns ::
  "qualified_name \<Rightarrow> column list \<Rightarrow> (qualified_name \<times> column list) list
     \<Rightarrow> (qualified_name \<times> column list) list" where
  "replace_columns k cols [] = []"
| "replace_columns k cols (row # rows) =
     (if fst row = k then (k, cols) # rows else row # replace_columns k cols rows)"

text \<open>\<open>ALTER TABLE t ADD COLUMN c\<close> with an unqualified \<open>t\<close>: the new column goes last.\<close>

definition alter_table_add_column :: "string \<Rightarrow> column \<Rightarrow> catalog \<Rightarrow> sql_error + catalog" where
  "alter_table_add_column t c db =
     (case resolve_table db t of
        None \<Rightarrow> Inl (UndefinedTable t)
      | Some s \<Rightarrow>
          (case map_of (tables db) (s, t) of
             None \<Rightarrow> Inl (UndefinedTable t)
           | Some cols \<Rightarrow>
               if column_name c \<in> set (map column_name cols)
               then Inl (DuplicateColumn (column_name c))
               else Inr (db\<lparr>tables := replace_columns (s, t) (cols @ [c]) (tables db)\<rparr>)))"

text \<open>
  \<open>EXISTS (SELECT 1 FROM pg_type WHERE typname = name)\<close>: a type of that name in any
  schema.
\<close>

definition type_exists :: "catalog \<Rightarrow> string \<Rightarrow> bool" where
  "type_exists db name = list_ex (\<lambda>row. snd (fst row) = name) (pg_type db)"

text \<open>
  \<open>EXISTS (SELECT 1 FROM information_schema.columns WHERE table_name = t AND
  column_name = c)\<close>: the query has no \<open>table_schema\<close> condition, so a table of that
  name in any schema counts.
\<close>

definition column_exists :: "catalog \<Rightarrow> string \<Rightarrow> string \<Rightarrow> bool" where
  "column_exists db t c =
     list_ex (\<lambda>row. snd (fst row) = t \<and> list_ex (\<lambda>col. column_name col = c) (snd row))
       (tables db)"

definition transaction_type_labels :: "string list" where
  "transaction_type_labels = [''api'', ''content'', ''form'', ''navigation'']"

definition check_interval_column :: column where
  "check_interval_column =
     \<lparr>column_name = ''check_interval'', data_type = SqlInteger, not_null = True,
      column_default = Some 300\<rparr>"

text \<open>The first \<open>DO\<close> block.\<close>

definition create_enum_block :: "catalog \<Rightarrow> sql_error + catalog" where
  "create_enum_block db =
     (if \<not> type_exists db ''transaction_type''
      then create_type_enum ''transaction_type'' transaction_type_labels db
      else Inr db)"

text \<open>The second \<open>DO\<close> block.\<close>

definition add_column_block :: "catalog \<Rightarrow> sql_error + catalog" where
  "add_column_block db =
     (if \<not> column_exists db ''synthetic_transactions'' ''check_interval''
      then alter_table_add_column ''synthetic_transactions'' check_interval_column db
      else Inr db)"

text \<open>
  The script: its two statements one after the other, each committed on its own; a
  statement that fails leaves the catalog as it found it and its error is reported.
\<close>

definition exec_stmt ::
  "(catalog \<Rightarrow> sql_error + catalog) \<Rightarrow> sql_error list \<times> catalog \<Rightarrow> sql_error list \<times> catalog" where
  "exec_stmt stmt st =
     (case stmt (snd st) of
        Inl e \<Rightarrow> (fst st @ [e], snd st)
      | Inr db' \<Rightarrow> (fst st, db'))"

definition migration :: "catalog \<Rightarrow> sql_error list \<times> catalog" where
  "migration db = exec_stmt add_column_block (exec_stmt create_enum_block ([], db))"

section \<open>\<open>server/config.ts\<close>, as the runbook lists it\<close>

record monitoring_config =
  defaultCheckInterval :: nat
  defaultTimeout :: nat
  maxRetries :: nat
  retryDelay :: nat
  metricRetention :: nat

definition monitoringConfig :: monitoring_config where
  "monitoringConfig =
     \<lparr>defaultCheckInterval = 60, defaultTimeout = 30, maxRetries = 3, retryDelay = 5,
      metricRetention = 365\<rparr>"

text \<open>
  \<open>parseInt(s, 10)\<close>: leading white space, an optional sign, then the longest run of
  decimal digits; NaN (\<open>None\<close>) when there is no digit. White space is the ASCII part of
  ECMAScript's.
\<close>

definition is_space :: "char \<Rightarrow> bool" where
  "is_space c = ((of_char c :: nat) \<in> {9, 10, 11, 12, 13, 32})"

definition parseInt10 :: "string \<Rightarrow> int option" where
  "parseInt10 s =
     (let t = dropWhile is_space s;
          neg = (t \<noteq> [] \<and> hd t = CHR ''-'');
          u = (if t \<noteq> [] \<and> (hd t = CHR ''-'' \<or> hd t = CHR ''+'') then tl t else t);
          ds = takeWhile is_digit u
      in if ds = [] then None
         else Some (if neg then - int (digits_val ds) else int (digits_val ds)))"

record email_auth =
  user :: "string option"
  pass :: "string option"

record email_config =
  email_enabled :: bool
  host :: "string option"
  port :: "int option"
  secure :: bool
  auth :: email_auth
  from_address :: string

record twilio_config =
  enabled :: bool
  accountSid :: "string option"
  authToken :: "string option"
  phoneNumber :: "string option"

record notification_config =
  email :: email_config
  sms :: twilio_config
  call :: twilio_config

text \<open>\<open>notificationConfig\<close>, as the module computes it from \<open>process.env\<close> when loaded.\<close>

definition notificationConfig :: "(string \<rightharpoonup> string) \<Rightarrow> notification_config" where
  "notificationConfig env =
     \<lparr>email =
        \<lparr>email_enabled = (if truthy (env ''SMTP_HOST'') then True else False),
         host = env ''SMTP_HOST'',
         port = parseInt10 (or_else (env ''SMTP_PORT'') ''587''),
         secure = (env ''SMTP_SECURE'' = Some ''true''),
         auth = \<lparr>user = env ''SMTP_USER'', pass = env ''SMTP_PASSWORD''\<rparr>,
         from_address = or_else (env ''EMAIL_FROM'') ''alerts@devops-guardian.com''\<rparr>,
      sms =
        \<lparr>enabled = (if truthy (env ''TWILIO_ACCOUNT_SID'') then True else False),
         accountSid = env ''TWILIO_ACCOUNT_SID'',
         authToken = env ''TWILIO_AUTH_TOKEN'',
         phoneNumber = env ''TWILIO_PHONE_NUMBER''\<rparr>,
      call =
        \<lparr>enabled = (if truthy (env ''TWILIO_ACCOUNT_SID'') then True else False),
         accountSid = env ''TWILIO_ACCOUNT_SID'',
         authToken = env ''TWILIO_AUTH_TOKEN'',
         phoneNumber = env ''TWILIO_PHONE_NUMBER''\<rparr>\<rparr>"

section \<open>The retry coordinator of the specification\<close>

text \<open>
  Modelled from the spec: the data model of section 3 (\<open>SyntheticTransaction\<close>,
  \<open>CheckResult\<close>). The repository has no code for the monitoring core; times are in
  milliseconds where the spec gives seconds, so that \<open>durationMs\<close> adds up with them.
\<close>

datatype transaction_type = api | content | form | navigation

datatype outcome = Success | Failure | Timeout

record SyntheticTransaction =
  txn_id :: nat
  txn_type :: transaction_type
  txn_target :: string
  txn_checkInterval :: nat
  txn_timeout :: nat
  txn_maxRetries :: nat
  txn_retryDelay :: nat

record CheckResult =
  transactionId :: nat
  startedAt :: nat
  durationMs :: nat
  outcome :: outcome
  attempt :: nat
  detail :: string

text \<open>
  Modelled from the spec: what one attempt against the external target shows (the target
  itself is outside the core): whether the check's criteria were met, how long the target
  took to answer, and a diagnostic.
\<close>

record observation =
  criteria_met :: bool
  took_ms :: nat
  diagnostic :: string

text \<open>
  Modelled from the spec: the Probe Executor (section 4.1), absent from the repository:
  "perform one attempt of the appropriate check and return a CheckResult within
  \<open>timeout\<close> seconds, or return outcome=timeout if exceeded".
\<close>

definition probe_executor :: "SyntheticTransaction \<Rightarrow> nat \<Rightarrow> nat \<Rightarrow> observation \<Rightarrow> CheckResult" where
  "probe_executor t now k obs =
     (if took_ms obs > 1000 * txn_timeout t
      then \<lparr>transactionId = txn_id t, startedAt = now, durationMs = 1000 * txn_timeout t,
            outcome = Timeout, attempt = k, detail = diagnostic obs\<rparr>
      else \<lparr>transactionId = txn_id t, startedAt = now, durationMs = took_ms obs,
            outcome = (if criteria_met obs then Success else Failure), attempt = k,
            detail = diagnostic obs\<rparr>)"

text \<open>
  Modelled from the spec: the Retry Coordinator (section 4.2), absent from the repository:
  "call Probe Executor up to \<open>maxRetries+1\<close> times, waiting \<open>retryDelay\<close> seconds between
  failed attempts (not after the final attempt), short-circuiting on first success. Returns
  the final CheckResult [...] plus the attempt count used. A timeout outcome counts as a
  failure for retry purposes." \<open>retry_from t target n k now\<close> makes attempt \<open>k\<close> at time
  \<open>now\<close> with \<open>n\<close> retries left; \<open>target k\<close> is what attempt \<open>k\<close> observes. It returns the
  final result and the time at which it ends.
\<close>

fun retry_from ::
  "SyntheticTransaction \<Rightarrow> (nat \<Rightarrow> observation) \<Rightarrow> nat \<Rightarrow> nat \<Rightarrow> nat \<Rightarrow> CheckResult \<times> nat" where
  "retry_from t target 0 k now =
     (let r = probe_executor t now k (target k) in (r, now + durationMs r))"
| "retry_from t target (Suc n) k now =
     (let r = probe_executor t now k (target k)
      in if outcome r = Success then (r, now + durationMs r)
         else retry_from t target n (Suc k) (now + durationMs r + 1000 * txn_retryDelay t))"

text \<open>
  Modelled from the spec: one run of the Retry Coordinator started at time \<open>start\<close>: the
  final \<open>CheckResult\<close>, the attempt count used, and the total elapsed time.
\<close>

definition retry_coordinator ::
  "SyntheticTransaction \<Rightarrow> (nat \<Rightarrow> observation) \<Rightarrow> nat \<Rightarrow> CheckResult \<times> nat \<times> nat" where
  "retry_coordinator t target start =
     (case retry_from t target (txn_maxRetries t) 1 start of
        (r, finished) \<Rightarrow> (r, attempt r, finished - start))"

section \<open>Readings of the specification's wording\<close>

text \<open>\<open>Day(t)\<close> of ECMA-262: the number of the UTC day that the time value \<open>t\<close> lies in.\<close>

definition utc_day :: "int \<Rightarrow> int" where
  "utc_day t = t div msPerDay"

text \<open>
  The specification's words for the placeholder license, read by the calendar: "the
  current date is on or before 2026-12-31 and instanceId is one of \<open>default-instance\<close>,
  \<open>production-1\<close>, \<open>staging-1\<close>".
\<close>

definition claimed_license_valid :: "int \<Rightarrow> string \<Rightarrow> bool" where
  "claimed_license_valid now instanceId =
     (utc_day now \<le> MakeDay 2026 11 31
      \<and> instanceId \<in> {''default-instance'', ''production-1'', ''staging-1''})"

text \<open>The specification's words "the environment variable is present" (is set).\<close>

definition is_set :: "(string \<rightharpoonup> string) \<Rightarrow> string \<Rightarrow> bool" where
  "is_set env name = (env name \<noteq> None)"

text \<open>
  The specification's words "a block-comment watermark": one comment of the language, which
  opens with \<open>/*\<close> and runs up to the first \<open>*/\<close> after that. So the text opens with
  \<open>/*\<close>, closes with \<open>*/\<close>, and no \<open>*/\<close> ends earlier.
\<close>

definition is_block_comment :: "string \<Rightarrow> bool" where
  "is_block_comment w =
     (prefix ''/*'' w \<and> suffix ''*/'' (drop 2 w) \<and> \<not> sublist ''*/'' (butlast (drop 2 w)))"

section \<open>Example inputs\<close>

text \<open>A plugin whose license holder, taken as it is, closes the comment.\<close>

definition closing_plugin :: plugin where
  "closing_plugin =
     watermarkPlugin Map.empty 1700000000000
       (no_options\<lparr>opt_licenseHolder := Some ''*/alert(1);/*''\<rparr>)"

text \<open>
  A catalog before the migration: one schema, no named type, and the table with one
  column.
\<close>

definition example_catalog :: catalog where
  "example_catalog =
     \<lparr>search_path = [''public''],
      pg_type = [],
      tables = [((''public'', ''synthetic_transactions''),
        [\<lparr>column_name = ''id'', data_type = SqlInteger, not_null = True,
          column_default = None\<rparr>])]\<rparr>"

text \<open>
  The same, with a second schema off the search path whose table of the same name has
  the column already.
\<close>

definition two_schema_catalog :: catalog where
  "two_schema_catalog =
     example_catalog\<lparr>tables := tables example_catalog @
       [((''archive'', ''synthetic_transactions''),
         [\<lparr>column_name = ''check_interval'', data_type = SqlInteger, not_null = False,
           column_default = None\<rparr>])]\<rparr>"

text \<open>The transaction of the specification's example, and a target that always answers with a failure.\<close>

definition example_transaction :: SyntheticTransaction where
  "example_transaction =
     \<lparr>txn_id = 1, txn_type = api, txn_target = ''https://example.com/health'',
      txn_checkInterval = 300, txn_timeout = 30, txn_maxRetries = 3, txn_retryDelay = 5\<rparr>"

definition failing_target :: "nat \<Rightarrow> observation" where
  "failing_target k = \<lparr>criteria_met = False, took_ms = 100, diagnostic = ''HTTP 500''\<rparr>"

text \<open>An environment in which both credential variables are set, to the empty string.\<close>

definition blank_env :: "string \<rightharpoonup> string" where
  "blank_env = [''SMTP_HOST'' \<mapsto> '''', ''TWILIO_ACCOUNT_SID'' \<mapsto> '''']"

section \<open>Auxiliary facts\<close>

lemma Date_parse_placeholder: "Date_parse ''2026-12-31'' = Some 1798675200000"
  by (simp add: Date_parse_def is_digit_def digits_val_def digit_val_def DaysInMonth_def
      InLeapYear_def MakeDay_def DayFromYear_def MonthStart_def msPerDay_def Let_def upt_rec)

lemma MakeDay_placeholder: "MakeDay 2026 11 31 * msPerDay = 1798675200000"
  by (simp add: DaysInMonth_def InLeapYear_def MakeDay_def DayFromYear_def MonthStart_def
      msPerDay_def upt_rec)

lemma verifyLicense_with_True_iff:
  "snd (verifyLicense_with decode now licenseKey instanceId) = Inr True \<longleftrightarrow>
     (\<exists>lic instances. decode licenseKey = Inr (Some lic)
        \<and> \<not> date_lt (Date_new (expiresAt lic)) (Some now)
        \<and> allowedInstances lic = Some instances \<and> instanceId \<in> set instances)"
  by (auto simp: verifyLicense_with_def verifyLicense_try_def try_catch_def
      split: sum.splits option.splits prod.splits if_splits)

lemma verifyLicense_cases:
  "verifyLicense now k i = ([], Inr True)
   \<or> verifyLicense now k i = ([(Warn, ''License has expired'')], Inr False)
   \<or> verifyLicense now k i = ([(Warn, ''Instance ID not authorized for this license'')], Inr False)"
  by (simp add: verifyLicense_def verifyLicense_with_def verifyLicense_try_def try_catch_def
      decodeLicenseKey_def)

lemma initializeWatermarking_unregistered:
  "env ''LICENSE_KEY'' = None \<or> env ''LICENSE_KEY'' = Some [] \<Longrightarrow>
   \<exists>out. initializeWatermarking pf env = (out, Inr ())
        \<and> (Error, ''Code integrity violation detected'') \<notin> set out"
  by (auto simp: checkCodeIntegrity_def initializeWatermarking_def Let_def)

lemma initializeWatermarking_registered:
  assumes "env ''LICENSE_KEY'' = Some k" "k \<noteq> []"
  shows "\<exists>out. initializeWatermarking pf env = (out, Inr ())
        \<and> (Error, ''Code integrity violation detected'') \<notin> set out"
  using assms verifyLicense_cases [of "clock pf 0" k "or_else (env ''INSTANCE_ID'') ''default-instance''"]
  by (auto simp: checkCodeIntegrity_def initializeWatermarking_def Let_def)

lemma b64_char_alphabet: "b64_char n \<in> set b64_alphabet"
proof -
  have "length b64_alphabet = 64" by (simp add: b64_alphabet_def)
  then show ?thesis unfolding b64_char_def by (intro nth_mem) simp
qed

lemma b64_char_not_star: "b64_char n \<noteq> CHR ''*''"
proof -
  have "CHR ''*'' \<notin> set b64_alphabet" by (simp add: b64_alphabet_def)
  then show ?thesis using b64_char_alphabet [of n] by metis
qed

lemma base64_no_star: "CHR ''*'' \<notin> set (base64 xs)"
  by (induction xs rule: base64.induct) (simp_all add: Let_def b64_char_not_star [symmetric])

lemma sublist2_append:
  "sublist [a, b] (xs @ ys) \<longleftrightarrow>
     sublist [a, b] xs \<or> sublist [a, b] ys \<or> (xs \<noteq> [] \<and> ys \<noteq> [] \<and> last xs = a \<and> hd ys = b)"
proof -
  have "(\<exists>xs1 xs2. [a, b] = xs1 @ xs2 \<and> suffix xs1 xs \<and> prefix xs2 ys) \<longleftrightarrow>
      prefix [a, b] ys \<or> suffix [a, b] xs \<or> (suffix [a] xs \<and> prefix [b] ys)"
    (is "?l \<longleftrightarrow> ?r")
  proof
    assume ?l
    then obtain xs1 xs2 where e: "[a, b] = xs1 @ xs2" and s: "suffix xs1 xs" and p: "prefix xs2 ys"
      by blast
    have "xs1 = [] \<and> xs2 = [a, b] \<or> xs1 = [a] \<and> xs2 = [b] \<or> xs1 = [a, b] \<and> xs2 = []"
    proof (cases xs1)
      case Nil
      with e show ?thesis by simp
    next
      case (Cons x t)
      with e show ?thesis by (cases t) simp_all
    qed
    then consider "xs1 = []" "xs2 = [a, b]" | "xs1 = [a]" "xs2 = [b]" | "xs1 = [a, b]" "xs2 = []"
      by blast
    then show ?r using s p by cases auto
  next
    assume ?r
    then consider "prefix [a, b] ys" | "suffix [a, b] xs" | "suffix [a] xs" "prefix [b] ys"
      by blast
    then show ?l
    proof cases
      case 1
      have "[a, b] = [] @ [a, b] \<and> suffix [] xs \<and> prefix [a, b] ys" using 1 by simp
      then show ?thesis by blast
    next
      case 2
      have "[a, b] = [a, b] @ [] \<and> suffix [a, b] xs \<and> prefix [] ys" using 2 by simp
      then show ?thesis by blast
    next
      case 3
      have "[a, b] = [a] @ [b] \<and> suffix [a] xs \<and> prefix [b] ys" using 3 by simp
      then show ?thesis by blast
    qed
  qed
  moreover have "suffix [a] xs \<longleftrightarrow> xs \<noteq> [] \<and> last xs = a"
    by (cases xs rule: rev_cases) (auto simp: suffix_def)
  moreover have "prefix [b] ys \<longleftrightarrow> ys \<noteq> [] \<and> hd ys = b"
    by (cases ys) auto
  ultimately show ?thesis
    unfolding sublist_append by (auto dest: prefix_imp_sublist suffix_imp_sublist)
qed

lemma star_in_set: "sublist ''*/'' xs \<Longrightarrow> CHR ''*'' \<in> set xs"
  using set_mono_sublist [of "''*/''" xs] by auto

lemma last_in_set_star: "xs \<noteq> [] \<Longrightarrow> last xs = CHR ''*'' \<Longrightarrow> CHR ''*'' \<in> set xs"
  using last_in_set by metis

lemma show_nat_no_star: "CHR ''*'' \<notin> set (show_nat n)"
proof (induction n rule: show_nat.induct)
  case (1 n)
  have d: "digit_char k \<noteq> CHR ''*''" if "k < 10" for k
  proof -
    have "digit_char k \<in> set ''0123456789''"
      unfolding digit_char_def using that by (intro nth_mem) simp
    then show ?thesis by auto
  qed
  show ?case
  proof (cases "n < 10")
    case True
    then show ?thesis using d [of n] by (subst show_nat.simps) simp
  next
    case False
    then show ?thesis using 1 d [of "n mod 10"] by (subst show_nat.simps) simp
  qed
qed

lemma show_int_no_star: "CHR ''*'' \<notin> set (show_int i)"
  by (simp add: show_int_def show_nat_no_star)

lemma block_comment_intro:
  "\<not> sublist ''*/'' (body @ ''*'') \<Longrightarrow> is_block_comment (''/*'' @ body @ ''*/'')"
  by (simp add: is_block_comment_def suffix_def butlast_append)

lemma plain_block_comment:
  assumes "\<not> sublist ''*/'' v" "\<not> sublist ''*/'' h" "\<not> sublist ''*/'' c"
  shows "is_block_comment (''/* DevOps-guardians v'' @ v @ '' - Licensed to: '' @ h
           @ '' - Build: '' @ show_int n @ (if c = [] then [] else '' - '' @ c) @ '' */'')"
proof -
  let ?body = "'' DevOps-guardians v'' @ v @ '' - Licensed to: '' @ h
           @ '' - Build: '' @ show_int n @ (if c = [] then [] else '' - '' @ c) @ '' ''"
  have n: "\<not> sublist ''*/'' (show_int n)" "show_int n = [] \<or> last (show_int n) \<noteq> CHR ''*''"
    using star_in_set show_int_no_star last_in_set_star by blast+
  have "\<not> sublist ''*/'' (?body @ ''*'')"
    using assms n by (auto simp: sublist2_append sublist_Cons_right)
  then have "is_block_comment (''/*'' @ ?body @ ''*/'')"
    by (rule block_comment_intro)
  then show ?thesis by simp
qed

lemma encoded_block_comment: "is_block_comment (''/* '' @ base64 w @ '' */'')"
proof -
  have b: "\<not> sublist ''*/'' (base64 w)" "base64 w = [] \<or> last (base64 w) \<noteq> CHR ''*''"
    using star_in_set base64_no_star last_in_set_star by blast+
  have "\<not> sublist ''*/'' (('' '' @ base64 w @ '' '') @ ''*'')"
    using b by (auto simp: sublist2_append sublist_Cons_right)
  then have "is_block_comment (''/*'' @ ('' '' @ base64 w @ '' '') @ ''*/'')"
    by (rule block_comment_intro)
  then show ?thesis by simp
qed


lemma map_of_type_exists: "map_of (pg_type db) (s, n) = Some d \<Longrightarrow> type_exists db n"
  by (force simp: type_exists_def list_ex_iff dest: map_of_SomeD)

lemma map_of_column_exists:
  "map_of (tables db) (s, t) = Some cols \<Longrightarrow> c \<in> column_name ` set cols \<Longrightarrow> column_exists db t c"
  by (force simp: column_exists_def list_ex_iff dest: map_of_SomeD)


lemma replace_columns_member:
  "map_of rows k = Some v \<Longrightarrow> (k, v') \<in> set (replace_columns k v' rows)"
  by (induction rows) (auto split: if_splits)

lemma create_enum_block_result:
  "create_enum_block db =
     (if type_exists db ''transaction_type'' then Inr db
      else case search_path db of
             [] \<Rightarrow> Inl InvalidSchemaName
           | s # _ \<Rightarrow>
               Inr (db\<lparr>pg_type := pg_type db @
                      [((s, ''transaction_type''), EnumType transaction_type_labels)]\<rparr>))"
proof -
  have "map_of (pg_type db) (s, ''transaction_type'') = None"
    if "\<not> type_exists db ''transaction_type''" for s
    using that map_of_type_exists [of db s "''transaction_type''"] by (cases "map_of (pg_type db) (s, ''transaction_type'')") auto
  then show ?thesis
    by (simp add: create_enum_block_def create_type_enum_def split: list.splits)
qed

lemma add_column_block_result:
  "add_column_block db =
     (if column_exists db ''synthetic_transactions'' ''check_interval'' then Inr db
      else case resolve_table db ''synthetic_transactions'' of
             None \<Rightarrow> Inl (UndefinedTable ''synthetic_transactions'')
           | Some s \<Rightarrow>
               (case map_of (tables db) (s, ''synthetic_transactions'') of
                  None \<Rightarrow> Inl (UndefinedTable ''synthetic_transactions'')
                | Some cols \<Rightarrow>
                    Inr (db\<lparr>tables := replace_columns (s, ''synthetic_transactions'')
                                        (cols @ [check_interval_column]) (tables db)\<rparr>)))"
proof -
  have "''check_interval'' \<notin> column_name ` set cols"
    if "\<not> column_exists db ''synthetic_transactions'' ''check_interval''"
      "map_of (tables db) (s, ''synthetic_transactions'') = Some cols" for s cols
    using that map_of_column_exists by blast
  then show ?thesis
    by (auto simp: add_column_block_def alter_table_add_column_def check_interval_column_def
        split: option.splits)
qed

lemma create_enum_block_Inr:
  assumes "create_enum_block db = Inr db'"
  shows "type_exists db' ''transaction_type'' \<and> tables db' = tables db
         \<and> search_path db' = search_path db"
  using assms
  by (auto simp: create_enum_block_result type_exists_def split: if_splits list.splits)

lemma create_enum_block_Inl:
  "create_enum_block db = Inl e \<longleftrightarrow>
     \<not> type_exists db ''transaction_type'' \<and> search_path db = [] \<and> e = InvalidSchemaName"
  by (auto simp: create_enum_block_result split: if_splits list.splits)

lemma add_column_block_Inr:
  assumes "add_column_block db = Inr db'"
  shows "column_exists db' ''synthetic_transactions'' ''check_interval''
         \<and> pg_type db' = pg_type db \<and> search_path db' = search_path db"
proof (cases "column_exists db ''synthetic_transactions'' ''check_interval''")
  case True
  with assms show ?thesis by (simp add: add_column_block_result)
next
  case False
  with assms obtain s cols where
    s: "map_of (tables db) (s, ''synthetic_transactions'') = Some cols"
    and db': "db' = db\<lparr>tables := replace_columns (s, ''synthetic_transactions'')
                                        (cols @ [check_interval_column]) (tables db)\<rparr>"
    by (auto simp: add_column_block_result split: option.splits)
  have "((s, ''synthetic_transactions''), cols @ [check_interval_column]) \<in> set (tables db')"
    using replace_columns_member [OF s] db' by simp
  then have "column_exists db' ''synthetic_transactions'' ''check_interval''"
    by (force simp: column_exists_def list_ex_iff check_interval_column_def)
  with db' show ?thesis by simp
qed

lemma type_exists_cong: "pg_type a = pg_type b \<Longrightarrow> type_exists a n = type_exists b n"
  by (simp add: type_exists_def)

lemma migration_twice: "snd (migration (snd (migration db))) = snd (migration db)"
proof (cases "create_enum_block db")
  case (Inl e1)
  then have f1: "\<not> type_exists db ''transaction_type''" "search_path db = []"
    by (simp_all add: create_enum_block_Inl)
  show ?thesis
  proof (cases "add_column_block db")
    case (Inl e2)
    with \<open>create_enum_block db = Inl e1\<close> show ?thesis
      by (simp add: migration_def exec_stmt_def)
  next
    case (Inr db2)
    from add_column_block_Inr [OF Inr] have c: "column_exists db2 ''synthetic_transactions'' ''check_interval''"
      and p: "pg_type db2 = pg_type db" "search_path db2 = search_path db" by simp_all
    from p f1 have "create_enum_block db2 = Inl InvalidSchemaName"
      by (simp add: create_enum_block_Inl type_exists_cong [OF p(1)])
    moreover from c have "add_column_block db2 = Inr db2"
      by (simp add: add_column_block_result)
    ultimately show ?thesis
      using Inr \<open>create_enum_block db = Inl e1\<close> by (simp add: migration_def exec_stmt_def)
  qed
next
  case (Inr db1)
  from create_enum_block_Inr [OF Inr] have t: "type_exists db1 ''transaction_type''" by simp
  then have s1: "create_enum_block db1 = Inr db1" by (simp add: create_enum_block_result)
  show ?thesis
  proof (cases "add_column_block db1")
    case (Inl e2)
    with Inr s1 show ?thesis by (simp add: migration_def exec_stmt_def)
  next
    case (Inr db2)
    from add_column_block_Inr [OF Inr] have c: "column_exists db2 ''synthetic_transactions'' ''check_interval''"
      and p: "pg_type db2 = pg_type db1" by simp_all
    from t p have "create_enum_block db2 = Inr db2"
      by (simp add: create_enum_block_result type_exists_cong [OF p])
    moreover from c have "add_column_block db2 = Inr db2"
      by (simp add: add_column_block_result)
    ultimately show ?thesis
      using Inr \<open>create_enum_block db = Inr db1\<close> by (simp add: migration_def exec_stmt_def)
  qed
qed


lemma column_exists_cong: "tables a = tables b \<Longrightarrow> column_exists a t c = column_exists b t c"
  by (simp add: column_exists_def)


lemma migration_pg_type:
  "pg_type (snd (migration db)) =
     (if type_exists db ''transaction_type'' then pg_type db
      else case search_path db of
             [] \<Rightarrow> pg_type db
           | s # _ \<Rightarrow> pg_type db @ [((s, ''transaction_type''), EnumType transaction_type_labels)])"
proof -
  have "pg_type (snd (exec_stmt add_column_block st)) = pg_type (snd st)" for st
    using add_column_block_Inr [of "snd st"]
    by (cases "add_column_block (snd st)") (simp_all add: exec_stmt_def)
  then show ?thesis
    by (simp add: migration_def exec_stmt_def create_enum_block_result split: list.splits)
qed


text \<open>
  A table of the same name in a schema off the search path that has the column makes the
  guard of the second block skip: the table the \<open>ALTER TABLE\<close> would change is left
  without the column.
\<close>

lemma migration_other_schema_blocks:
  "column_exists two_schema_catalog ''synthetic_transactions'' ''check_interval''
   \<and> resolve_table two_schema_catalog ''synthetic_transactions'' = Some ''public''
   \<and> tables (snd (migration two_schema_catalog)) = tables two_schema_catalog"
  by (simp add: two_schema_catalog_def example_catalog_def column_exists_def resolve_table_def
      migration_def exec_stmt_def create_enum_block_result add_column_block_result type_exists_def)

lemma retry_from_all_fail:
  assumes "\<forall>k. \<not> criteria_met (target k) \<and> took_ms (target k) \<le> 1000 * txn_timeout t"
  shows "\<exists>r fin. retry_from t target n k now = (r, fin) \<and> outcome r = Failure
           \<and> attempt r = k + n
           \<and> now + n * (1000 * txn_retryDelay t) \<le> fin
           \<and> fin \<le> now + (n + 1) * (1000 * txn_timeout t) + n * (1000 * txn_retryDelay t)"
proof (induction n arbitrary: k now)
  case 0
  from assms have "took_ms (target k) \<le> 1000 * txn_timeout t" "\<not> criteria_met (target k)"
    by simp_all
  then show ?case by (simp add: probe_executor_def Let_def)
next
  case (Suc n)
  let ?r = "probe_executor t now k (target k)"
  from assms have "took_ms (target k) \<le> 1000 * txn_timeout t" "\<not> criteria_met (target k)"
    by simp_all
  then have f: "outcome ?r = Failure" and d: "durationMs ?r \<le> 1000 * txn_timeout t"
    by (simp_all add: probe_executor_def)
  let ?now' = "now + durationMs ?r + 1000 * txn_retryDelay t"
  from Suc.IH [of "Suc k" ?now'] obtain r fin where
    r: "retry_from t target n (Suc k) ?now' = (r, fin)" "outcome r = Failure"
       "attempt r = Suc k + n" "?now' + n * (1000 * txn_retryDelay t) \<le> fin"
       "fin \<le> ?now' + (n + 1) * (1000 * txn_timeout t) + n * (1000 * txn_retryDelay t)"
    by blast
  have "retry_from t target (Suc n) k now = (r, fin)"
    using f r(1) by (simp add: Let_def)
  moreover have "now + Suc n * (1000 * txn_retryDelay t) \<le> fin"
    using r(4) by simp
  moreover have "fin \<le> now + (Suc n + 1) * (1000 * txn_timeout t) + Suc n * (1000 * txn_retryDelay t)"
    using r(5) d by simp
  ultimately show ?case using r(2,3) by simp
qed

section \<open>The license check\<close>

text \<open>
  Claim C1, as the specification words it, fails on the calendar reading of "the current
  date is on or before 2026-12-31": at 01:00 UTC on 31 December 2026 (time value
  1798678800000; the local date is then 30 or 31 December in every time zone) the
  current date is 2026-12-31 and \<open>default-instance\<close> is listed, yet \<open>verifyLicense\<close>
  warns that the license has expired and returns false. \<open>new Date('2026-12-31')\<close>
  is the instant of UTC midnight at the start of that day.
\<close>

theorem verifyLicense_calendar_counterexample:
  "claimed_license_valid 1798678800000 ''default-instance''
   \<and> utc_day 1798678800000 = MakeDay 2026 11 31
   \<and> verifyLicense 1798678800000 ''any-key'' ''default-instance''
        = ([(Warn, ''License has expired'')], Inr False)"
  by (simp add: claimed_license_valid_def utc_day_def verifyLicense_def verifyLicense_with_def
      verifyLicense_try_def try_catch_def decodeLicenseKey_def Date_new_def Date_parse_placeholder
      DaysInMonth_def InLeapYear_def MakeDay_def DayFromYear_def MonthStart_def msPerDay_def upt_rec)

text \<open>
  Claim C1, amended. For every decoder, license key and instance id, \<open>verifyLicense\<close>
  returns true if and only if decoding yields a license object, the \<open>Date\<close> of its
  \<open>expiresAt\<close> is not strictly earlier than the current instant (a comparison of time
  values, false for an invalid date), and the instance id is a member of its
  \<open>allowedInstances\<close>. With the placeholder \<open>decodeLicenseKey\<close> it returns true if and
  only if the current instant is not later than 2026-12-31T00:00:00.000Z (time value
  1798675200000, the start of that day in UTC) and the instance id is one of
  \<open>default-instance\<close>, \<open>production-1\<close>, \<open>staging-1\<close>.
\<close>

theorem verifyLicense_iff:
  "(snd (verifyLicense_with decode now licenseKey instanceId) = Inr True \<longleftrightarrow>
      (\<exists>lic instances. decode licenseKey = Inr (Some lic)
          \<and> \<not> date_lt (Date_new (expiresAt lic)) (Some now)
          \<and> allowedInstances lic = Some instances \<and> instanceId \<in> set instances))
   \<and> (snd (verifyLicense now licenseKey instanceId) = Inr True \<longleftrightarrow>
      now \<le> MakeDay 2026 11 31 * msPerDay
      \<and> instanceId \<in> {''default-instance'', ''production-1'', ''staging-1''})
   \<and> MakeDay 2026 11 31 * msPerDay = 1798675200000"
proof -
  have "snd (verifyLicense now licenseKey instanceId) = Inr True \<longleftrightarrow>
      now \<le> 1798675200000
      \<and> instanceId \<in> {''default-instance'', ''production-1'', ''staging-1''}"
    unfolding verifyLicense_def verifyLicense_with_True_iff
    by (auto simp: decodeLicenseKey_def Date_new_def Date_parse_placeholder)
  then show ?thesis
    using verifyLicense_with_True_iff MakeDay_placeholder by simp
qed

text \<open>
  At the last valid instant a listed instance is accepted; one millisecond later it is
  not.
\<close>

theorem verifyLicense_iff_witness:
  "snd (verifyLicense 1798675200000 ''any-key'' ''production-1'') = Inr True
   \<and> snd (verifyLicense 1798675200001 ''any-key'' ''production-1'') \<noteq> Inr True"
  using verifyLicense_iff [of decodeLicenseKey 1798675200000 "''any-key''" "''production-1''"]
    verifyLicense_iff [of decodeLicenseKey 1798675200001 "''any-key''" "''production-1''"]
  by simp

text \<open>
  Claim C9. \<open>verifyLicense\<close> never propagates an exception: for every decoder (one that
  throws on a malformed key, returns nothing, or returns an object with fields missing),
  every clock reading, key and instance id it returns a boolean, and whenever the body of
  its \<open>try\<close> block throws, the value returned is false. In particular this holds of
  \<open>verifyLicense\<close> with the placeholder decoder.
\<close>

theorem verifyLicense_catches:
  "(\<exists>out b. verifyLicense_with decode now licenseKey instanceId = (out, Inr b))
   \<and> (\<forall>e. snd (verifyLicense_try decode now licenseKey instanceId) = Inl e \<longrightarrow>
          snd (verifyLicense_with decode now licenseKey instanceId) = Inr False)
   \<and> (\<exists>out b. verifyLicense now licenseKey instanceId = (out, Inr b))"
  by (auto simp: verifyLicense_def verifyLicense_with_def try_catch_def
      split: sum.splits prod.splits)

text \<open>
  A decoder that throws on a malformed key, and one whose object has no
  \<open>allowedInstances\<close>: the body throws, \<open>verifyLicense\<close> returns false.
\<close>

theorem verifyLicense_catches_witness:
  "snd (verifyLicense_try (\<lambda>k. Inl (Thrown ''jwt malformed'')) 0 ''garbage'' ''default-instance'')
     = Inl (Thrown ''jwt malformed'')
   \<and> snd (verifyLicense_with (\<lambda>k. Inl (Thrown ''jwt malformed'')) 0 ''garbage'' ''default-instance'')
     = Inr False
   \<and> snd (verifyLicense_try
        (\<lambda>k. Inr (Some \<lparr>expiresAt = None, allowedInstances = None, features = None,
                         customer = None\<rparr>)) 0 ''key'' ''default-instance'')
     = Inl (TypeError ''Cannot read properties of undefined (reading includes)'')
   \<and> snd (verifyLicense_with
        (\<lambda>k. Inr (Some \<lparr>expiresAt = None, allowedInstances = None, features = None,
                         customer = None\<rparr>)) 0 ''key'' ''default-instance'')
     = Inr False"
  using verifyLicense_catches [of "\<lambda>k. Inl (Thrown ''jwt malformed'')" 0 "''garbage''" "''default-instance''"]
    verifyLicense_catches [of "\<lambda>k. Inr (Some \<lparr>expiresAt = None, allowedInstances = None,
       features = None, customer = None\<rparr>)" 0 "''key''" "''default-instance''"]
  by (simp add: verifyLicense_try_def Date_new_def)

section \<open>The integrity check\<close>

text \<open>
  Claim C10. \<open>checkCodeIntegrity\<close> is the constant true, so the branch of
  \<open>initializeWatermarking\<close> guarded by \<open>!codeIntegrity\<close> is never taken: on every
  platform and in every environment \<open>initializeWatermarking\<close> completes without
  throwing and never prints the error "Code integrity violation detected".
\<close>

theorem integrity_violation_unreachable:
  "checkCodeIntegrity = True
   \<and> (\<exists>out. initializeWatermarking pf env = (out, Inr ())
        \<and> (Error, ''Code integrity violation detected'') \<notin> set out)"
proof (cases "env ''LICENSE_KEY''")
  case None
  then show ?thesis
    using initializeWatermarking_unregistered [of env pf] by (simp add: checkCodeIntegrity_def)
next
  case (Some k)
  then show ?thesis
    using initializeWatermarking_unregistered [of env pf]
      initializeWatermarking_registered [of env k pf]
    by (cases "k = []") (simp_all add: checkCodeIntegrity_def)
qed

theorem integrity_violation_unreachable_witness:
  "(Error, ''Code integrity violation detected'') \<notin>
     set (fst (initializeWatermarking
       \<lparr>clock = (\<lambda>n. 1798678800000), toISOString = (\<lambda>t. ''2026-12-31T01:00:00.000Z''),
        getFullYear = (\<lambda>t. 2026), hmac_sha256_hex = (\<lambda>k d. ''0123456789abcdef0123456789abcdef'')\<rparr>
       (Map.empty(''LICENSE_KEY'' \<mapsto> ''abc''))))"
  using integrity_violation_unreachable [of
       "\<lparr>clock = (\<lambda>n. 1798678800000), toISOString = (\<lambda>t. ''2026-12-31T01:00:00.000Z''),
        getFullYear = (\<lambda>t. 2026), hmac_sha256_hex = (\<lambda>k d. ''0123456789abcdef0123456789abcdef'')\<rparr>"
       "Map.empty(''LICENSE_KEY'' \<mapsto> ''abc'')"]
  by auto

section \<open>The Vite plugin leaves the code as it is\<close>

text \<open>
  Claim C2, as the specification words it, fails where it calls what is stamped a
  block-comment watermark: the license holder, the version and the custom text go into the
  watermark as they are, so a license holder that contains \<open>*/\<close> ends the comment early
  and what \<open>transform\<close> puts before the newline is a comment, then text outside any
  comment, then a second comment.
\<close>

theorem transform_closes_comment_counterexample:
  "transform closing_plugin ''let x = 1;'' ''src/main.ts''
     = Some (''/* DevOps-guardians v1.0.0 - Licensed to: */alert(1);/* - Build: 1700000000000 */''
             @ [CHR 0x0A] @ ''let x = 1;'')
   \<and> \<not> is_block_comment
         ''/* DevOps-guardians v1.0.0 - Licensed to: */alert(1);/* - Build: 1700000000000 */''"
proof -
  have n: "show_int 1700000000000 = ''1700000000000''"
    by (simp add: show_int_def show_nat.simps digit_char_def)
  have "transform closing_plugin ''let x = 1;'' ''src/main.ts''
     = Some (''/* DevOps-guardians v1.0.0 - Licensed to: */alert(1);/* - Build: 1700000000000 */''
             @ [CHR 0x0A] @ ''let x = 1;'')"
    by (simp add: transform_def closing_plugin_def watermarkPlugin_def no_options_def or_else_def
        includes_str_def endsWith_def sublist_code suffix_to_prefix n)
  moreover have "\<not> is_block_comment
         ''/* DevOps-guardians v1.0.0 - Licensed to: */alert(1);/* - Build: 1700000000000 */''"
    by (simp add: is_block_comment_def sublist_code)
  ultimately show ?thesis by simp
qed

text \<open>
  Claim C2, amended. For every configuration of the plugin and every file: if the file id
  contains a pattern of the exclude list, or ends with no extension of the include list,
  \<open>transform\<close> returns \<open>null\<close>; otherwise it returns the watermark, a newline and the
  original code, where the watermark is the text
  \<open>/* DevOps-guardians v<version> - Licensed to: <licenseHolder> - Build: <buildId>\<close>,
  then \<open> - <customText>\<close> when that is not empty, then \<open> */\<close>, or, when
  \<open>encodeWatermark\<close> is set, \<open>/* <base64 of that text> */\<close>. So whatever \<open>transform\<close>
  returns has the original code, unchanged, as its suffix. The watermark is a block comment
  whenever it is encoded, or none of version, license holder and custom text contains
  \<open>*/\<close>.
\<close>

theorem transform_frame:
  "(let plain = ''/* DevOps-guardians v'' @ version p @ '' - Licensed to: '' @ licenseHolder p
                  @ '' - Build: '' @ show_int (buildId p)
                  @ (if customText p = [] then [] else '' - '' @ customText p) @ '' */'';
        watermark = (if encodeWatermark p then ''/* '' @ base64 plain @ '' */'' else plain);
        skipped = ((\<exists>pattern \<in> set (exclude_list p). sublist pattern file_id)
                   \<or> \<not> (\<exists>ext \<in> set (include_list p). suffix ext file_id))
    in (skipped \<longrightarrow> transform p code file_id = None)
       \<and> (\<not> skipped \<longrightarrow> transform p code file_id = Some (watermark @ [CHR 0x0A] @ code))
       \<and> (\<forall>r. transform p code file_id = Some r \<longrightarrow> suffix code r)
       \<and> (encodeWatermark p
            \<or> \<not> (sublist ''*/'' (version p) \<or> sublist ''*/'' (licenseHolder p)
                   \<or> sublist ''*/'' (customText p))
           \<longrightarrow> is_block_comment watermark))"
proof -
  let ?plain = "''/* DevOps-guardians v'' @ version p @ '' - Licensed to: '' @ licenseHolder p
                  @ '' - Build: '' @ show_int (buildId p)
                  @ (if customText p = [] then [] else '' - '' @ customText p) @ '' */''"
  let ?watermark = "if encodeWatermark p then ''/* '' @ base64 ?plain @ '' */'' else ?plain"
  let ?skipped = "(\<exists>pattern \<in> set (exclude_list p). sublist pattern file_id)
                   \<or> \<not> (\<exists>ext \<in> set (include_list p). suffix ext file_id)"
  have t: "transform p code file_id
             = (if ?skipped then None else Some (?watermark @ [CHR 0x0A] @ code))"
    by (simp add: transform_def includes_str_def endsWith_def list_ex_iff Let_def)
  have s: "\<forall>r. transform p code file_id = Some r \<longrightarrow> suffix code r"
    unfolding t by (simp add: suffix_def)
  have b: "is_block_comment ?watermark"
    if "encodeWatermark p
            \<or> \<not> (sublist ''*/'' (version p) \<or> sublist ''*/'' (licenseHolder p)
                   \<or> sublist ''*/'' (customText p))"
  proof (cases "encodeWatermark p")
    case True
    then show ?thesis using encoded_block_comment [of ?plain] by simp
  next
    case False
    with that have "\<not> sublist ''*/'' (version p)" "\<not> sublist ''*/'' (licenseHolder p)"
        "\<not> sublist ''*/'' (customText p)"
      by simp_all
    from plain_block_comment [OF this, of "buildId p"] False show ?thesis by simp
  qed
  from t s b show ?thesis unfolding Let_def by simp
qed

text \<open>
  With the default options: a file under \<open>node_modules\<close> and a style sheet are skipped, a
  TypeScript source is stamped with a block comment.
\<close>

theorem transform_frame_witness:
  "transform (watermarkPlugin Map.empty 1700000000000 no_options) ''let x = 1;''
       ''node_modules/lib/index.js'' = None
   \<and> transform (watermarkPlugin Map.empty 1700000000000 no_options) ''let x = 1;''
       ''src/style.css'' = None
   \<and> transform (watermarkPlugin Map.empty 1700000000000 no_options) ''let x = 1;''
       ''src/main.ts''
       = Some (''/* DevOps-guardians v1.0.0 - Licensed to: Unregistered - Build: 1700000000000 */''
               @ [CHR 0x0A] @ ''let x = 1;'')
   \<and> is_block_comment
        ''/* DevOps-guardians v1.0.0 - Licensed to: Unregistered - Build: 1700000000000 */''"
proof -
  let ?p = "watermarkPlugin Map.empty 1700000000000 no_options"
  have f: "exclude_list ?p = [''node_modules'', ''.json'', ''.css'', ''.html'']"
    "include_list ?p = [''.js'', ''.jsx'', ''.ts'', ''.tsx'']"
    "version ?p = ''1.0.0''" "licenseHolder ?p = ''Unregistered''" "customText ?p = []"
    "encodeWatermark ?p = False" "buildId ?p = 1700000000000"
    by (simp_all add: watermarkPlugin_def no_options_def or_else_def)
  have n: "show_int 1700000000000 = ''1700000000000''"
    by (simp add: show_int_def show_nat.simps digit_char_def)
  have a: "\<exists>pattern \<in> set (exclude_list ?p). sublist pattern ''node_modules/lib/index.js''"
    unfolding f by (simp add: sublist_code)
  have b: "\<exists>pattern \<in> set (exclude_list ?p). sublist pattern ''src/style.css''"
    unfolding f by (simp add: sublist_code)
  have c: "\<not> (\<exists>pattern \<in> set (exclude_list ?p). sublist pattern ''src/main.ts'')"
    unfolding f by (simp add: sublist_code)
  have d: "\<exists>ext \<in> set (include_list ?p). suffix ext ''src/main.ts''"
    unfolding f by (simp add: suffix_to_prefix)
  have e: "\<not> (sublist ''*/'' (version ?p) \<or> sublist ''*/'' (licenseHolder ?p)
                   \<or> sublist ''*/'' (customText ?p))"
    unfolding f by (simp add: sublist_code)
  have 1: "transform ?p ''let x = 1;'' ''node_modules/lib/index.js'' = None"
    using a transform_frame [of ?p "''node_modules/lib/index.js''" "''let x = 1;''"]
    unfolding Let_def by blast
  have 2: "transform ?p ''let x = 1;'' ''src/style.css'' = None"
    using b transform_frame [of ?p "''src/style.css''" "''let x = 1;''"]
    unfolding Let_def by blast
  have 3: "transform ?p ''let x = 1;'' ''src/main.ts''
       = Some (''/* DevOps-guardians v1.0.0 - Licensed to: Unregistered - Build: 1700000000000 */''
               @ [CHR 0x0A] @ ''let x = 1;'')
     \<and> is_block_comment
        ''/* DevOps-guardians v1.0.0 - Licensed to: Unregistered - Build: 1700000000000 */''"
    using c d e transform_frame [of ?p "''src/main.ts''" "''let x = 1;''"]
    unfolding Let_def f n by simp
  from 1 2 3 show ?thesis by simp
qed

section \<open>The migration\<close>



text \<open>
  Claim C4. The migration is idempotent. It leaves the types as they are when a type named
  \<open>transaction_type\<close> exists, and the tables as they are when a table
  \<open>synthetic_transactions\<close> has a column \<open>check_interval\<close>; on a catalog that has both
  it succeeds and changes nothing; and on every catalog, running it a second time leaves
  the catalog as the first run left it.
\<close>

theorem migration_idempotent:
  "(type_exists db ''transaction_type'' \<longrightarrow> pg_type (snd (migration db)) = pg_type db)
   \<and> (column_exists db ''synthetic_transactions'' ''check_interval'' \<longrightarrow>
        tables (snd (migration db)) = tables db)
   \<and> (type_exists db ''transaction_type''
        \<and> column_exists db ''synthetic_transactions'' ''check_interval'' \<longrightarrow>
        migration db = ([], db))
   \<and> snd (migration (snd (migration db))) = snd (migration db)"
proof -
  have 1: "type_exists db ''transaction_type'' \<longrightarrow> pg_type (snd (migration db)) = pg_type db"
    by (simp add: migration_pg_type)
  have 3: "type_exists db ''transaction_type''
        \<and> column_exists db ''synthetic_transactions'' ''check_interval'' \<longrightarrow>
        migration db = ([], db)"
    by (simp add: migration_def exec_stmt_def create_enum_block_result add_column_block_result)
  have 2: "tables (snd (migration db)) = tables db"
    if c: "column_exists db ''synthetic_transactions'' ''check_interval''"
  proof (cases "create_enum_block db")
    case (Inl e)
    with c show ?thesis
      by (simp add: migration_def exec_stmt_def add_column_block_result)
  next
    case (Inr db1)
    from create_enum_block_Inr [OF Inr] have e: "tables db1 = tables db" by simp
    with c have "add_column_block db1 = Inr db1"
      by (simp add: add_column_block_result column_exists_cong [OF e])
    with Inr e show ?thesis by (simp add: migration_def exec_stmt_def)
  qed
  from 1 2 3 migration_twice [of db] show ?thesis by blast
qed

text \<open>
  The example catalog after one run has both, and a second run changes nothing; on the
  catalog with two schemas the column exists already and the tables stay as they are.
\<close>

theorem migration_idempotent_witness:
  "snd (migration (snd (migration example_catalog))) = snd (migration example_catalog)
   \<and> migration (snd (migration example_catalog)) = ([], snd (migration example_catalog))
   \<and> tables (snd (migration two_schema_catalog)) = tables two_schema_catalog"
proof -
  have m: "snd (migration example_catalog) =
     \<lparr>search_path = [''public''],
      pg_type = [((''public'', ''transaction_type''),
                  EnumType [''api'', ''content'', ''form'', ''navigation''])],
      tables = [((''public'', ''synthetic_transactions''),
        [\<lparr>column_name = ''id'', data_type = SqlInteger, not_null = True,
           column_default = None\<rparr>,
         \<lparr>column_name = ''check_interval'', data_type = SqlInteger, not_null = True,
           column_default = Some 300\<rparr>])]\<rparr>"
    by (simp add: example_catalog_def migration_def exec_stmt_def create_enum_block_result
        add_column_block_result type_exists_def column_exists_def resolve_table_def
        transaction_type_labels_def check_interval_column_def)
  have a: "type_exists (snd (migration example_catalog)) ''transaction_type''"
    unfolding m by (simp add: type_exists_def)
  have b: "column_exists (snd (migration example_catalog)) ''synthetic_transactions''
      ''check_interval''"
    unfolding m by (simp add: column_exists_def)
  have c: "column_exists two_schema_catalog ''synthetic_transactions'' ''check_interval''"
    by (simp add: two_schema_catalog_def example_catalog_def column_exists_def)
  show ?thesis
    using a b c migration_idempotent [of example_catalog]
      migration_idempotent [of "snd (migration example_catalog)"]
      migration_idempotent [of two_schema_catalog]
    by simp
qed

section \<open>The configuration\<close>

text \<open>
  Claim C5. The two configured defaults for the check interval disagree: the column that
  the migration adds has default 300 (seconds), \<open>monitoringConfig.defaultCheckInterval\<close>
  is 60 (seconds). Neither the migration nor the configuration reads the other value:
  nothing in the modelled code relates the two.
\<close>

theorem defaults_disagree:
  "column_default check_interval_column = Some 300
   \<and> defaultCheckInterval monitoringConfig = 60
   \<and> column_default check_interval_column \<noteq> Some (int (defaultCheckInterval monitoringConfig))"
  by (simp add: check_interval_column_def monitoringConfig_def)

text \<open>
  Claim C6. \<open>monitoringConfig\<close> has \<open>defaultTimeout\<close> 30 (seconds), \<open>maxRetries\<close> 3,
  \<open>retryDelay\<close> 5 (seconds) and \<open>metricRetention\<close> 365 (days): the per-transaction
  defaults of the specification.
\<close>

theorem monitoringConfig_values:
  "defaultTimeout monitoringConfig = 30
   \<and> maxRetries monitoringConfig = 3
   \<and> retryDelay monitoringConfig = 5
   \<and> metricRetention monitoringConfig = 365"
  by (simp add: monitoringConfig_def)

text \<open>
  Claim C7, as the specification words it, fails for a credential variable that is set to
  the empty string: the variable is present, the channel is disabled, because the
  configuration tests the truthiness of the value.
\<close>

theorem notification_enabled_counterexample:
  "is_set blank_env ''SMTP_HOST''
   \<and> \<not> email_enabled (email (notificationConfig blank_env))
   \<and> is_set blank_env ''TWILIO_ACCOUNT_SID''
   \<and> \<not> enabled (sms (notificationConfig blank_env))
   \<and> \<not> enabled (call (notificationConfig blank_env))"
  by (simp add: is_set_def blank_env_def notificationConfig_def truthy_def)

text \<open>
  Claim C7, amended. \<open>email.enabled\<close> is true if and only if \<open>SMTP_HOST\<close> is set to a
  non-empty string; \<open>sms.enabled\<close> and \<open>call.enabled\<close> are each true if and only if
  \<open>TWILIO_ACCOUNT_SID\<close> is set to a non-empty string.
\<close>

theorem notification_enabled_iff:
  "(email_enabled (email (notificationConfig env)) \<longleftrightarrow>
      (\<exists>s. env ''SMTP_HOST'' = Some s \<and> s \<noteq> []))
   \<and> (enabled (sms (notificationConfig env)) \<longleftrightarrow>
      (\<exists>s. env ''TWILIO_ACCOUNT_SID'' = Some s \<and> s \<noteq> []))
   \<and> (enabled (call (notificationConfig env)) \<longleftrightarrow>
      (\<exists>s. env ''TWILIO_ACCOUNT_SID'' = Some s \<and> s \<noteq> []))"
  by (auto simp: notificationConfig_def truthy_def split: option.splits)

text \<open>With only \<open>SMTP_HOST\<close> set, email is enabled and the two Twilio channels are not.\<close>

theorem notification_enabled_iff_witness:
  "email_enabled (email (notificationConfig [''SMTP_HOST'' \<mapsto> ''smtp.example.com'']))
   \<and> \<not> enabled (sms (notificationConfig [''SMTP_HOST'' \<mapsto> ''smtp.example.com'']))
   \<and> \<not> enabled (call (notificationConfig [''SMTP_HOST'' \<mapsto> ''smtp.example.com'']))"
  using notification_enabled_iff [of "[''SMTP_HOST'' \<mapsto> ''smtp.example.com'']"]
  by simp

section \<open>The retry policy\<close>

text \<open>
  Claim C8. With \<open>maxRetries = 3\<close>, \<open>retryDelay = 5\<close> and \<open>timeout = 30\<close>, a check whose
  probe fails on every attempt (each attempt answers within the timeout, with the
  criteria not met) makes exactly 4 attempts and ends with a \<open>CheckResult\<close> of outcome
  failure; the total elapsed time is at least 15 seconds and at most 135 seconds.
\<close>

theorem retry_always_failing:
  assumes "txn_maxRetries t = 3" and "txn_retryDelay t = 5" and "txn_timeout t = 30"
    and "\<forall>k. \<not> criteria_met (target k) \<and> took_ms (target k) \<le> 30000"
  shows "\<exists>r elapsed. retry_coordinator t target start = (r, 4, elapsed)
           \<and> attempt r = 4 \<and> outcome r = Failure
           \<and> 15000 \<le> elapsed \<and> elapsed \<le> 135000"
proof -
  from assms(3,4) have "\<forall>k. \<not> criteria_met (target k) \<and> took_ms (target k) \<le> 1000 * txn_timeout t"
    by simp
  from retry_from_all_fail [OF this, of 3 1 start] obtain r fin where
    r: "retry_from t target 3 1 start = (r, fin)" "outcome r = Failure" "attempt r = 1 + 3"
       "start + 3 * (1000 * txn_retryDelay t) \<le> fin"
       "fin \<le> start + (3 + 1) * (1000 * txn_timeout t) + 3 * (1000 * txn_retryDelay t)"
    by blast
  then show ?thesis
    using assms(1,2,3) by (simp add: retry_coordinator_def) arith
qed

text \<open>
  A target that answers each attempt after 100 ms with a failure: four attempts, three
  waits of five seconds, 15.4 seconds in all.
\<close>

theorem retry_always_failing_witness:
  "retry_coordinator example_transaction failing_target 0
     = (\<lparr>transactionId = 1, startedAt = 15300, durationMs = 100, outcome = Failure,
         attempt = 4, detail = ''HTTP 500''\<rparr>, 4, 15400)"
proof -
  have a: "txn_maxRetries example_transaction = 3" "txn_retryDelay example_transaction = 5"
      "txn_timeout example_transaction = 30"
    by (simp_all add: example_transaction_def)
  have b: "\<forall>k. \<not> criteria_met (failing_target k) \<and> took_ms (failing_target k) \<le> 30000"
    by (simp add: failing_target_def)
  have c: "retry_coordinator example_transaction failing_target 0
     = (\<lparr>transactionId = 1, startedAt = 15300, durationMs = 100, outcome = Failure,
         attempt = 4, detail = ''HTTP 500''\<rparr>, 4, 15400)"
    by (simp add: retry_coordinator_def example_transaction_def failing_target_def
        probe_executor_def numeral_3_eq_3 Let_def)
  from retry_always_failing [OF a b, of 0] c show ?thesis by simp
qed

end
